theory Spec2Isabelle
  imports Main
begin

section \<open>Python values and exceptions\<close>

text \<open>
  The forms of \<^verbatim>\<open>members/forms.py\<close> are embedded as functions on explicit
  data. A raised exception is the left summand of the result (\<open>Inl\<close>), a returned value
  the right one (\<open>Inr\<close>). A validation error carries a list of (message, code) pairs,
  the code being optional, as the framework's \<^verbatim>\<open>ValidationError\<close> does.
\<close>

type_synonym verr = "string \<times> string option"

datatype exn =
    ValidationError "verr list"
  | KeyError string
  | LDAPInvalidCredentialsResult
  | OtherException string

section \<open>The directory connection and the bind helper\<close>

datatype conn_call = Bind | Unbind

record connection =
  conn_user :: "string option"
  conn_password :: "string option"
  calls :: "conn_call list"

text \<open>
  Modelled from the spec: \<^verbatim>\<open>sync.ldap.get_connection\<close> and the connection object it
  returns are not part of \<^verbatim>\<open>members/forms.py\<close>. The spec describes a
  directory-service client capable of connect, bind and unbind that raises a
  distinguishable invalid-credentials condition. A connection records the credentials
  set on it and the calls made on it, in order; the directory decides what a bind with
  given credentials does: \<open>None\<close> when it completes, \<open>Some e\<close> when it raises
  \<open>e\<close>. Unbinding is the release of the connection and completes.
\<close>

type_synonym directory = "string option \<Rightarrow> string option \<Rightarrow> exn option"

definition get_connection :: connection where
  "get_connection = \<lparr>conn_user = None, conn_password = None, calls = []\<rparr>"

definition bind :: "directory \<Rightarrow> connection \<Rightarrow> exn option \<times> connection" where
  "bind d conn = (d (conn_user conn) (conn_password conn), conn\<lparr>calls := calls conn @ [Bind]\<rparr>)"

definition unbind :: "connection \<Rightarrow> connection" where
  "unbind conn = conn\<lparr>calls := calls conn @ [Unbind]\<rparr>"

text \<open>
  \<^verbatim>\<open>try_ldap_bind(user, password)\<close>: the \<^verbatim>\<open>finally\<close> clause runs on every way
  out of the \<^verbatim>\<open>try\<close> block, before the function returns or the exception leaves it.
  The result is paired with the connection as the call leaves it.
\<close>

definition try_ldap_bind :: "directory \<Rightarrow> string \<Rightarrow> string \<Rightarrow> (exn + bool) \<times> connection" where
  "try_ldap_bind d user password =
     (let conn = get_connection;
          conn = conn\<lparr>conn_user := Some user\<rparr>;
          conn = conn\<lparr>conn_password := Some password\<rparr>;
          (raised, conn) = bind d conn;
          conn = unbind conn
      in case raised of
           None \<Rightarrow> (Inr True, conn)
         | Some LDAPInvalidCredentialsResult \<Rightarrow> (Inr False, conn)
         | Some e \<Rightarrow> (Inl e, conn))"

section \<open>The password change form\<close>

record user =
  username :: string
  password :: string

text \<open>
  The state of a password change form that \<^verbatim>\<open>clean_old_password\<close> reads: the account,
  the cleaned data collected so far (the fields of this form are character fields) and
  the table of error messages of the base class.
\<close>

record password_form =
  form_user :: user
  cleaned_data :: "string \<rightharpoonup> string"
  error_messages :: "string \<Rightarrow> string"

text \<open>
  The base class's \<^verbatim>\<open>PasswordChangeForm.clean_old_password\<close> of the framework: the local
  comparison of the submitted old password with the stored hash. The comparison itself,
  \<^verbatim>\<open>user.check_password\<close>, is a parameter.
\<close>

definition PasswordChangeForm_clean_old_password ::
    "(user \<Rightarrow> string \<Rightarrow> bool) \<Rightarrow> password_form \<Rightarrow> exn + string" where
  "PasswordChangeForm_clean_old_password check_password self =
     (case cleaned_data self ''old_password'' of
        None \<Rightarrow> Inl (KeyError ''old_password'')
      | Some old_password \<Rightarrow>
          if \<not> check_password (form_user self) old_password
          then Inl (ValidationError
                 [(error_messages self ''password_incorrect'', Some ''password_incorrect'')])
          else Inr old_password)"

text \<open>
  \<^verbatim>\<open>MyPasswordChangeForm.clean_old_password\<close>. The second component of the result lists
  the directory connections the call has used.
\<close>

definition clean_old_password ::
    "directory \<Rightarrow> (user \<Rightarrow> string \<Rightarrow> bool) \<Rightarrow> password_form \<Rightarrow> (exn + string) \<times> connection list" where
  "clean_old_password d check_password self =
     (if password (form_user self) = ''invalid'' then
        (case cleaned_data self ''old_password'' of
           None \<Rightarrow> (Inl (KeyError ''old_password''), [])
         | Some old_password \<Rightarrow>
             (let ldap_user = ''uid='' @ username (form_user self) @ '',ou=people,dc=esmgquadrivium,dc=nl'';
                  (r, conn) = try_ldap_bind d ldap_user old_password
              in case r of
                   Inl e \<Rightarrow> (Inl e, [conn])
                 | Inr ok \<Rightarrow>
                     if \<not> ok
                     then (Inl (ValidationError
                             [(error_messages self ''password_incorrect'', Some ''password_incorrect'')]),
                           [conn])
                     else (Inr old_password, [conn])))
      else (PasswordChangeForm_clean_old_password check_password self, []))"

section \<open>Submitted data, cleaned values and form fields\<close>

text \<open>
  The framework's form machinery is not part of \<^verbatim>\<open>members/forms.py\<close>; the part of
  it that the forms of this file run through is written out here, after the framework's
  \<^verbatim>\<open>Field.clean\<close> and \<^verbatim>\<open>BaseForm.full_clean\<close>. A submission is a query dictionary:
  every name carries the list of the values submitted under it.
\<close>

type_synonym querydict = "string \<rightharpoonup> string list"

definition QueryDict_get :: "querydict \<Rightarrow> string \<Rightarrow> string option" where
  "QueryDict_get data key =
     (case data key of None \<Rightarrow> None | Some vs \<Rightarrow> if vs = [] then None else Some (last vs))"

definition QueryDict_getlist :: "querydict \<Rightarrow> string \<Rightarrow> string list" where
  "QueryDict_getlist data key = (case data key of None \<Rightarrow> [] | Some vs \<Rightarrow> vs)"

datatype pyval = PyNone | PyStr string | PyBool bool | PyList "string list" | PyObj string

text \<open>Membership in the framework's \<^verbatim>\<open>empty_values\<close>.\<close>

fun is_empty :: "pyval \<Rightarrow> bool" where
  "is_empty PyNone = True"
| "is_empty (PyStr s) = (s = [])"
| "is_empty (PyList xs) = (xs = [])"
| "is_empty (PyBool b) = False"
| "is_empty (PyObj x) = False"

text \<open>\<^verbatim>\<open>str.strip()\<close>, on ASCII white space.\<close>

definition py_isspace :: "char \<Rightarrow> bool" where
  "py_isspace c = (c \<in> set [CHR 0x09, CHR 0x0A, CHR 0x0B, CHR 0x0C, CHR 0x0D,
                              CHR 0x1C, CHR 0x1D, CHR 0x1E, CHR 0x1F, CHR 0x20])"

definition py_strip :: "string \<Rightarrow> string" where
  "py_strip s = rev (dropWhile py_isspace (rev (dropWhile py_isspace s)))"

text \<open>
  The classes of form fields that occur. A choice field carries its choices, a model
  multiple choice field the keys of its queryset. \<open>OtherField conv\<close> stands for
  any other single-valued field that the model layer generates (a date, a number, a
  typed choice): \<open>conv\<close> converts a non-empty submitted text, given the field's
  input formats.
\<close>

datatype field_class =
    CharField
  | ChoiceField "(string \<times> string) list"
  | MultipleChoiceField "(string \<times> string) list"
  | ModelMultipleChoiceField "string list"
  | OtherField "string list \<Rightarrow> string \<Rightarrow> verr list + pyval"

record field =
  required :: bool
  label :: "string option"
  help_text :: "string option"
  input_formats :: "string list"
  validators :: "(pyval \<Rightarrow> verr list) list"
  field_class :: field_class

definition required_error :: verr where
  "required_error = (''This field is required.'', Some ''required'')"

definition invalid_choice_error :: verr where
  "invalid_choice_error =
     (''Select a valid choice. %(value)s is not one of the available choices.'', Some ''invalid_choice'')"

definition ProhibitNullCharactersValidator :: "pyval \<Rightarrow> verr list" where
  "ProhibitNullCharactersValidator v =
     (case v of
        PyStr s \<Rightarrow> if CHR 0x00 \<in> set s
                   then [(''Null characters are not allowed.'', Some ''null_characters_not_allowed'')]
                   else []
      | _ \<Rightarrow> [])"

text \<open>
  \<^verbatim>\<open>Field.run_validators\<close>: nothing runs on an empty value; otherwise the errors of all
  validators are collected and raised together.
\<close>

definition run_validators :: "field \<Rightarrow> pyval \<Rightarrow> verr list + pyval" where
  "run_validators f v =
     (if is_empty v then Inr v
      else (let errors = concat (map (\<lambda>validator. validator v) (validators f))
            in if errors \<noteq> [] then Inl errors else Inr v))"

definition valid_value :: "(string \<times> string) list \<Rightarrow> string \<Rightarrow> bool" where
  "valid_value choices v = (v \<in> set (map fst choices))"

text \<open>
  \<^verbatim>\<open>to_python\<close> of each class, on the value that the field's widget reads from the
  submission: a single value (\<^verbatim>\<open>data.get\<close>) or, for the multiple choice classes, the list
  of values (\<^verbatim>\<open>data.getlist\<close>).
\<close>

definition to_python :: "field \<Rightarrow> querydict \<Rightarrow> string \<Rightarrow> verr list + pyval" where
  "to_python f data name =
     (case field_class f of
        CharField \<Rightarrow>
          (case QueryDict_get data name of
             None \<Rightarrow> Inr (PyStr [])
           | Some s \<Rightarrow> Inr (PyStr (py_strip s)))
      | ChoiceField choices \<Rightarrow>
          (case QueryDict_get data name of
             None \<Rightarrow> Inr (PyStr [])
           | Some s \<Rightarrow> Inr (PyStr s))
      | MultipleChoiceField choices \<Rightarrow> Inr (PyList (QueryDict_getlist data name))
      | ModelMultipleChoiceField pks \<Rightarrow> Inr (PyList (QueryDict_getlist data name))
      | OtherField conv \<Rightarrow>
          (case QueryDict_get data name of
             None \<Rightarrow> Inr PyNone
           | Some s \<Rightarrow> if s = [] then Inr PyNone else conv (input_formats f) s))"

text \<open>
  \<^verbatim>\<open>validate\<close>: every class refuses an empty value when the field is required; the
  choice classes then check the value against the choices, the model multiple choice
  class against the keys of the queryset (its two codes for a bad key are both written
  as an invalid choice) and answers with the selected keys in queryset order.
\<close>

definition validate :: "field \<Rightarrow> pyval \<Rightarrow> verr list + pyval" where
  "validate f v =
     (if required f \<and> is_empty v then Inl [required_error]
      else (case (field_class f, v) of
              (ChoiceField choices, PyStr s) \<Rightarrow>
                if s \<noteq> [] \<and> \<not> valid_value choices s then Inl [invalid_choice_error] else Inr v
            | (MultipleChoiceField choices, PyList xs) \<Rightarrow>
                if \<exists>x \<in> set xs. \<not> valid_value choices x then Inl [invalid_choice_error] else Inr v
            | (ModelMultipleChoiceField pks, PyList xs) \<Rightarrow>
                if \<exists>x \<in> set xs. x \<notin> set pks then Inl [invalid_choice_error]
                else Inr (PyList (filter (\<lambda>pk. pk \<in> set xs) pks))
            | _ \<Rightarrow> Inr v))"

definition field_clean :: "field \<Rightarrow> querydict \<Rightarrow> string \<Rightarrow> verr list + pyval" where
  "field_clean f data name =
     (case to_python f data name of
        Inl es \<Rightarrow> Inl es
      | Inr v \<Rightarrow>
          (case validate f v of
             Inl es \<Rightarrow> Inl es
           | Inr v' \<Rightarrow> (case run_validators f v of Inl es \<Rightarrow> Inl es | Inr _ \<Rightarrow> Inr v')))"

section \<open>The validation of a bound form\<close>

type_synonym cleaned = "string \<rightharpoonup> pyval"
type_synonym errors = "(string option \<times> verr list) list"
type_synonym fields = "(string \<times> field) list"

text \<open>
  \<^verbatim>\<open>add_error\<close>: the errors are recorded under the field (\<open>None\<close> for the form as a
  whole), and a field with an error loses its cleaned value.
\<close>

definition add_error :: "string option \<Rightarrow> verr list \<Rightarrow> cleaned \<times> errors \<Rightarrow> cleaned \<times> errors" where
  "add_error fld es st =
     (case fld of
        None \<Rightarrow> (fst st, snd st @ [(None, es)])
      | Some name \<Rightarrow> ((fst st)(name := None), snd st @ [(Some name, es)]))"

text \<open>
  \<^verbatim>\<open>_clean_fields\<close>: field by field, the cleaned value is stored, then the form's
  \<^verbatim>\<open>clean_<name>\<close> method, when it has one, runs and its result replaces the stored
  value. Only a validation error is caught.
\<close>

fun clean_fields ::
    "(string \<Rightarrow> (cleaned \<Rightarrow> exn + pyval) option) \<Rightarrow> querydict \<Rightarrow> fields
       \<Rightarrow> cleaned \<times> errors \<Rightarrow> exn + cleaned \<times> errors" where
  "clean_fields hooks data [] st = Inr st"
| "clean_fields hooks data ((name, f) # rest) st =
     (case field_clean f data name of
        Inl es \<Rightarrow> clean_fields hooks data rest (add_error (Some name) es st)
      | Inr v \<Rightarrow>
          (let st = ((fst st)(name \<mapsto> v), snd st) in
           case hooks name of
             None \<Rightarrow> clean_fields hooks data rest st
           | Some clean_name \<Rightarrow>
               (case clean_name (fst st) of
                  Inl (ValidationError es) \<Rightarrow> clean_fields hooks data rest (add_error (Some name) es st)
                | Inl e \<Rightarrow> Inl e
                | Inr v' \<Rightarrow> clean_fields hooks data rest ((fst st)(name \<mapsto> v'), snd st))))"

text \<open>
  \<^verbatim>\<open>_clean_form\<close> runs the form's \<^verbatim>\<open>clean\<close> whatever the field errors are, and again
  catches only a validation error.
\<close>

definition clean_form :: "(cleaned \<Rightarrow> exn + cleaned) \<Rightarrow> cleaned \<times> errors \<Rightarrow> exn + cleaned \<times> errors" where
  "clean_form clean st =
     (case clean (fst st) of
        Inl (ValidationError es) \<Rightarrow> Inr (add_error None es st)
      | Inl e \<Rightarrow> Inl e
      | Inr cd \<Rightarrow> Inr (cd, snd st))"

text \<open>
  \<^verbatim>\<open>_post_clean\<close> of a model form adds the errors of the model's own validation; these
  are a parameter, since the models are not part of this file. A plain form has none.
\<close>

definition post_clean :: "(cleaned \<Rightarrow> errors) \<Rightarrow> cleaned \<times> errors \<Rightarrow> cleaned \<times> errors" where
  "post_clean model_errors st = fold (\<lambda>(fld, es). add_error fld es) (model_errors (fst st)) st"

definition full_clean ::
    "(string \<Rightarrow> (cleaned \<Rightarrow> exn + pyval) option) \<Rightarrow> (cleaned \<Rightarrow> exn + cleaned) \<Rightarrow> (cleaned \<Rightarrow> errors)
       \<Rightarrow> fields \<Rightarrow> querydict \<Rightarrow> exn + cleaned \<times> errors" where
  "full_clean hooks clean model_errors flds data =
     (case clean_fields hooks data flds (Map.empty, []) of
        Inl e \<Rightarrow> Inl e
      | Inr st \<Rightarrow>
          (case clean_form clean st of
             Inl e \<Rightarrow> Inl e
           | Inr st' \<Rightarrow> Inr (post_clean model_errors st')))"

text \<open>\<^verbatim>\<open>is_valid\<close> of a bound form: no errors.\<close>

definition is_valid :: "exn + cleaned \<times> errors \<Rightarrow> exn + bool" where
  "is_valid r = (case r of Inl e \<Rightarrow> Inl e | Inr st \<Rightarrow> Inr (snd st = []))"

text \<open>Attribute updates and item assignment on the ordered dictionary of fields.\<close>

definition update_field :: "string \<Rightarrow> (field \<Rightarrow> field) \<Rightarrow> fields \<Rightarrow> fields" where
  "update_field name upd flds = map (\<lambda>(n, f). if n = name then (n, upd f) else (n, f)) flds"

definition set_field :: "string \<Rightarrow> field \<Rightarrow> fields \<Rightarrow> fields" where
  "set_field name f flds =
     (if name \<in> set (map fst flds) then update_field name (\<lambda>_. f) flds else flds @ [(name, f)])"

text \<open>The base \<^verbatim>\<open>clean\<close> of a form and of a model form returns the cleaned data.\<close>

definition Form_clean :: "cleaned \<Rightarrow> exn + cleaned" where
  "Form_clean cd = Inr cd"

section \<open>The profile form\<close>

definition ProfileForm_Meta_fields :: "string list" where
  "ProfileForm_Meta_fields =
     [''email'', ''phone_number'', ''street'', ''postal_code'', ''city'', ''country'',
      ''preferred_language'']"

text \<open>
  \<^verbatim>\<open>ProfileForm.__init__\<close>. The model \<^verbatim>\<open>Person\<close> is not part of this file: the form
  field that the model layer generates for each of its columns is the parameter
  \<open>formfield\<close>, which also says whether the record lets the column be left out
  (\<open>required\<close> false). The base class builds one field per name of \<^verbatim>\<open>Meta.fields\<close>,
  in that order, so every name that \<^verbatim>\<open>__init__\<close> looks up is there.
\<close>

definition ProfileForm_init :: "(string \<Rightarrow> field) \<Rightarrow> fields" where
  "ProfileForm_init formfield =
     (let flds = map (\<lambda>name. (name, formfield name)) ProfileForm_Meta_fields;
          flds = update_field ''email''
                   (\<lambda>f. f\<lparr>help_text := Some (''If you change your email address, '' @
                                            ''members mail will be sent to the new address.'')\<rparr>) flds
      in fold (\<lambda>f. update_field f (\<lambda>x. x\<lparr>required := True\<rparr>))
           [''email'', ''phone_number'', ''street'', ''postal_code'', ''city'', ''country'',
            ''preferred_language''] flds)"

definition ProfileForm_full_clean ::
    "(string \<Rightarrow> field) \<Rightarrow> (cleaned \<Rightarrow> errors) \<Rightarrow> querydict \<Rightarrow> exn + cleaned \<times> errors" where
  "ProfileForm_full_clean formfield model_errors data =
     full_clean (\<lambda>_. None) Form_clean model_errors (ProfileForm_init formfield) data"

section \<open>The subscription form\<close>

definition SubscribeForm_Meta_fields :: "string list" where
  "SubscribeForm_Meta_fields =
     [''first_name'', ''last_name'', ''initials'', ''email'', ''phone_number'', ''street'',
      ''postal_code'', ''city'', ''country'', ''gender'', ''date_of_birth'', ''preferred_language'',
      ''field_of_study'', ''is_student'', ''iban'', ''tue_card_number'', ''remarks'',
      ''sub_association'', ''instruments'', ''photo_video_consent_external_group'',
      ''photo_video_consent_external'', ''photo_video_consent_internal'', ''ensure_subscribe'',
      ''add_to_chats'']"

definition SubscribeForm_Meta_required :: "string list" where
  "SubscribeForm_Meta_required =
     [''first_name'', ''last_name'', ''initials'', ''email'', ''phone_number'', ''street'',
      ''postal_code'', ''city'', ''country'', ''gender'', ''date_of_birth'', ''preferred_language'',
      ''is_student'', ''instruments'', ''photo_video_consent_external_group'',
      ''photo_video_consent_external'', ''photo_video_consent_internal'', ''ensure_subscribe'',
      ''add_to_chats'']"

definition SubscribeForm_Meta_boolean_choices :: "string list" where
  "SubscribeForm_Meta_boolean_choices =
     [''photo_video_consent_external_group'', ''photo_video_consent_external'',
      ''photo_video_consent_internal'', ''is_student'']"

text \<open>
  The fields declared in the class body: two character fields shown as radio buttons and
  the two check box groups with one option each. Nothing is passed for \<^verbatim>\<open>required\<close>, so
  the framework's default, true, holds.
\<close>

definition SubscribeForm_declared_fields :: fields where
  "SubscribeForm_declared_fields =
     [(''preferred_language'',
         \<lparr>required = True, label = None, help_text = Some [], input_formats = [],
          validators = [ProhibitNullCharactersValidator], field_class = CharField\<rparr>),
      (''gender'',
         \<lparr>required = True, label = None, help_text = Some [], input_formats = [],
          validators = [ProhibitNullCharactersValidator], field_class = CharField\<rparr>),
      (''add_to_chats'',
         \<lparr>required = True,
          label = Some (''I hereby give permission to add me to the announcement WhatsApp '' @
                        ''group chats of Vokollage, Ensuite, and/or Auletes when I join those'' @
                        '' sub-associations (as indicated in the previous question).''),
          help_text = Some (''When being part of the choir or orchestras, it is important to '' @
                            ''join those group chats to receive (last minute) announcements '' @
                            ''with information about rehearsals and concerts. Please send an '' @
                            ''email to <a href='' @ [CHR 0x27] @ ''mailto:secretary@esmgquadrivium.nl'' @
                            [CHR 0x27] @ ''>'' @
                            ''secretary@esmgquadrivium.nl</a> directly after filling in this '' @
                            ''form if you wish to withdraw your consent.''),
          input_formats = [], validators = [],
          field_class = MultipleChoiceField [(''True'', ''Yes'')]\<rparr>),
      (''ensure_subscribe'',
         \<lparr>required = True,
          label = Some ''What are your intentions for filling in this form?'',
          help_text = Some (''Please fill in the other form if you are interested in '' @
                            ''Quadrivium and want to receive some more information.''),
          input_formats = [], validators = [],
          field_class = MultipleChoiceField [(''True'', ''I want to be subscribed to Quadrivium'')]\<rparr>)]"

text \<open>
  \<^verbatim>\<open>populate_boolean_fields\<close>. The help texts of the columns of the model
  \<^verbatim>\<open>MembershipRequest\<close>, which is not part of this file, are the parameter
  \<open>model_help_text\<close>. \<^verbatim>\<open>a or b\<close> is \<^verbatim>\<open>b\<close> when \<^verbatim>\<open>a\<close> is missing or the empty
  text. The label of the field that is replaced is only read for a name among the fields.
  \<open>boolean_choice_field\<close> is the choice field that the loop constructs for a name.
\<close>

definition field_label :: "fields \<Rightarrow> string \<Rightarrow> string option" where
  "field_label flds name = (case map_of flds name of None \<Rightarrow> None | Some f \<Rightarrow> label f)"

definition boolean_choice_field ::
    "(string \<rightharpoonup> string) \<Rightarrow> (string \<rightharpoonup> string) \<Rightarrow> fields \<Rightarrow> string \<Rightarrow> field" where
  "boolean_choice_field labels help_texts flds field =
     \<lparr>required = True,
      label = (case labels field of
                 None \<Rightarrow> field_label flds field
               | Some t \<Rightarrow> if t \<noteq> [] then Some t else field_label flds field),
      help_text = help_texts field,
      input_formats = [], validators = [],
      field_class = ChoiceField [(''Yes'', ''Yes''), (''No'', ''No'')]\<rparr>"

definition populate_boolean_fields :: "(string \<Rightarrow> string) \<Rightarrow> fields \<Rightarrow> fields" where
  "populate_boolean_fields model_help_text flds =
     (let labels = map_of (map (\<lambda>field. (field, model_help_text field))
                     [''photo_video_consent_external_group'', ''photo_video_consent_external'',
                      ''photo_video_consent_internal'']);
          help_texts = [''photo_video_consent_external_group'' \<mapsto>
                          ''By '' @ [CHR 0x27] @ ''group'' @ [CHR 0xE2, CHR 0x80, CHR 0x99] @
                          '' we mean large groups, such as pictures of a full orchestra or choir '' @
                          ''during a concert.'']
      in fold (\<lambda>field flds. set_field field (boolean_choice_field labels help_texts flds field) flds)
           SubscribeForm_Meta_boolean_choices flds)"

text \<open>
  \<^verbatim>\<open>SubscribeForm.__init__\<close>: the base class builds one field per name of
  \<^verbatim>\<open>Meta.fields\<close>, the declared field where the class body declares one and the field
  generated by the model layer (\<open>formfield\<close>) otherwise.
\<close>

definition SubscribeForm_init :: "(string \<Rightarrow> field) \<Rightarrow> (string \<Rightarrow> string) \<Rightarrow> fields" where
  "SubscribeForm_init formfield model_help_text =
     (let flds = map (\<lambda>name. (name, case map_of SubscribeForm_declared_fields name of
                                        None \<Rightarrow> formfield name
                                      | Some f \<Rightarrow> f)) SubscribeForm_Meta_fields;
          flds = populate_boolean_fields model_help_text flds;
          flds = update_field ''date_of_birth'' (\<lambda>f. f\<lparr>input_formats := [''%d-%m-%Y'']\<rparr>) flds
      in fold (\<lambda>field. update_field field (\<lambda>f. f\<lparr>required := True\<rparr>))
           SubscribeForm_Meta_required flds)"

text \<open>
  \<^verbatim>\<open>SubscribeForm.clean\<close>: the loop over the boolean choices indexes the cleaned data, which
  raises \<^verbatim>\<open>KeyError\<close> for a name that is not there, and stores the comparison with
  \<^verbatim>\<open>'Yes'\<close>; then the base class's \<^verbatim>\<open>clean\<close> returns the cleaned data.
\<close>

fun cast_boolean_choices :: "string list \<Rightarrow> cleaned \<Rightarrow> exn + cleaned" where
  "cast_boolean_choices [] cd = Inr cd"
| "cast_boolean_choices (field # rest) cd =
     (case cd field of
        None \<Rightarrow> Inl (KeyError field)
      | Some v \<Rightarrow> cast_boolean_choices rest (cd(field \<mapsto> PyBool (v = PyStr ''Yes''))))"

definition SubscribeForm_clean :: "cleaned \<Rightarrow> exn + cleaned" where
  "SubscribeForm_clean cd =
     (case cast_boolean_choices SubscribeForm_Meta_boolean_choices cd of
        Inl e \<Rightarrow> Inl e
      | Inr cd' \<Rightarrow> Form_clean cd')"

definition SubscribeForm_full_clean ::
    "(string \<Rightarrow> field) \<Rightarrow> (string \<Rightarrow> string) \<Rightarrow> (cleaned \<Rightarrow> errors) \<Rightarrow> querydict
       \<Rightarrow> exn + cleaned \<times> errors" where
  "SubscribeForm_full_clean formfield model_help_text model_errors data =
     full_clean (\<lambda>_. None) SubscribeForm_clean model_errors
       (SubscribeForm_init formfield model_help_text) data"

section \<open>The form that processes a membership request\<close>

text \<open>
  Modelled from the spec: the module \<^verbatim>\<open>members.models\<close> (\<^verbatim>\<open>User\<close>, \<^verbatim>\<open>Person\<close>,
  \<^verbatim>\<open>Instrument\<close>, \<^verbatim>\<open>UsernameValidator\<close>) is not part of this file. What the form
  asks of it is collected in a record: the user names of the existing accounts, the
  person ids in use, the keys of the instrument catalog, the user name format validator
  with the errors it raises, and the error of the person id uniqueness check.
\<close>

record members_models =
  User_usernames :: "string list"
  Person_person_ids :: "string list"
  Instrument_pks :: "string list"
  UsernameValidator :: "pyval \<Rightarrow> verr list"
  person_id_used_error :: verr

text \<open>
  Modelled from the spec: \<^verbatim>\<open>Person.validate_person_id_unique\<close> is missing. The spec has
  the person id "checked for uniqueness via a model-level validator" that raises "if
  already used", the duplicate being "surfaced as field-level validation errors": it
  raises a validation error when the person id is in use and returns nothing otherwise.
\<close>

definition validate_person_id_unique :: "members_models \<Rightarrow> pyval \<Rightarrow> exn + unit" where
  "validate_person_id_unique m person_id =
     (if \<exists>p \<in> set (Person_person_ids m). person_id = PyStr p
      then Inl (ValidationError [person_id_used_error m])
      else Inr ())"

definition ProcessMembershipRequestForm_username :: "members_models \<Rightarrow> field" where
  "ProcessMembershipRequestForm_username m =
     \<lparr>required = True, label = Some ''Username'', help_text = Some [], input_formats = [],
      validators = [UsernameValidator m, ProhibitNullCharactersValidator],
      field_class = CharField\<rparr>"

definition ProcessMembershipRequestForm_person_id :: field where
  "ProcessMembershipRequestForm_person_id =
     \<lparr>required = True, label = Some ''Person ID'', help_text = Some [], input_formats = [],
      validators = [ProhibitNullCharactersValidator], field_class = CharField\<rparr>"

definition ProcessMembershipRequestForm_instruments :: "members_models \<Rightarrow> field" where
  "ProcessMembershipRequestForm_instruments m =
     \<lparr>required = False, label = None, help_text = Some [], input_formats = [],
      validators = [], field_class = ModelMultipleChoiceField (Instrument_pks m)\<rparr>"

definition ProcessMembershipRequestForm_fields :: "members_models \<Rightarrow> fields" where
  "ProcessMembershipRequestForm_fields m =
     [(''username'', ProcessMembershipRequestForm_username m),
      (''person_id'', ProcessMembershipRequestForm_person_id),
      (''instruments'', ProcessMembershipRequestForm_instruments m)]"

definition username_exists_error :: verr where
  "username_exists_error =
     (''A user with this username already exists. Please provide an unused username.'', None)"

text \<open>
  \<^verbatim>\<open>clean_username\<close> and \<^verbatim>\<open>clean_person_id\<close> end without a \<^verbatim>\<open>return\<close> statement: when
  they do not raise, their value is \<^verbatim>\<open>None\<close>.
\<close>

definition clean_username :: "members_models \<Rightarrow> cleaned \<Rightarrow> exn + pyval" where
  "clean_username m cd =
     (case cd ''username'' of
        None \<Rightarrow> Inl (KeyError ''username'')
      | Some name \<Rightarrow>
          if \<exists>u \<in> set (User_usernames m). name = PyStr u
          then Inl (ValidationError [username_exists_error])
          else Inr PyNone)"

definition clean_person_id :: "members_models \<Rightarrow> cleaned \<Rightarrow> exn + pyval" where
  "clean_person_id m cd =
     (case cd ''person_id'' of
        None \<Rightarrow> Inl (KeyError ''person_id'')
      | Some person_id \<Rightarrow>
          (case validate_person_id_unique m person_id of
             Inl e \<Rightarrow> Inl e
           | Inr _ \<Rightarrow> Inr PyNone))"

definition ProcessMembershipRequestForm_hooks ::
    "members_models \<Rightarrow> string \<Rightarrow> (cleaned \<Rightarrow> exn + pyval) option" where
  "ProcessMembershipRequestForm_hooks m name =
     (if name = ''username'' then Some (clean_username m)
      else if name = ''person_id'' then Some (clean_person_id m)
      else None)"

definition ProcessMembershipRequestForm_full_clean ::
    "members_models \<Rightarrow> querydict \<Rightarrow> exn + cleaned \<times> errors" where
  "ProcessMembershipRequestForm_full_clean m data =
     full_clean (ProcessMembershipRequestForm_hooks m) Form_clean (\<lambda>_. [])
       (ProcessMembershipRequestForm_fields m) data"

section \<open>Auxiliary notions for the statements\<close>

text \<open>
  The errors that the fields' own cleaning raises on a submission, in the order of the
  fields.
\<close>

definition field_errors :: "querydict \<Rightarrow> fields \<Rightarrow> errors" where
  "field_errors data flds =
     concat (map (\<lambda>(n, f). case field_clean f data n of Inl es \<Rightarrow> [(Some n, es)] | Inr _ \<Rightarrow> []) flds)"

text \<open>
  A field is left unanswered by a submission when its widget reads no value: no value
  at all under the name for the multiple choice classes, no value or the empty text for
  the single-valued ones.
\<close>

definition no_answer :: "field \<Rightarrow> querydict \<Rightarrow> string \<Rightarrow> bool" where
  "no_answer f data name =
     (case field_class f of
        MultipleChoiceField _ \<Rightarrow> QueryDict_getlist data name = []
      | ModelMultipleChoiceField _ \<Rightarrow> QueryDict_getlist data name = []
      | _ \<Rightarrow> QueryDict_get data name = None \<or> QueryDict_get data name = Some [])"

section \<open>Example data\<close>

text \<open>
  A directory that knows one account, answers one password with a failure of its own
  and refuses every other bind.
\<close>

definition demo_directory :: directory where
  "demo_directory u p =
     (if u = Some ''uid=anna,ou=people,dc=esmgquadrivium,dc=nl'' \<and> p = Some ''s3cret'' then None
      else if p = Some ''boom'' then Some (OtherException ''LDAPSocketOpenError'')
      else Some LDAPInvalidCredentialsResult)"

definition demo_form :: "string \<Rightarrow> string \<Rightarrow> password_form" where
  "demo_form stored old =
     \<lparr>form_user = \<lparr>username = ''anna'', password = stored\<rparr>,
      cleaned_data = [''old_password'' \<mapsto> old],
      error_messages = (\<lambda>_. ''Your old password was entered incorrectly. Please enter it again.'')\<rparr>"

text \<open>
  A model layer for the subscription form, and a submission that answers every
  required field of it.
\<close>

definition demo_formfield :: "string \<Rightarrow> field" where
  "demo_formfield name =
     \<lparr>required = False, label = None, help_text = Some [], input_formats = [],
      validators = [ProhibitNullCharactersValidator],
      field_class = (if name = ''instruments'' \<or> name = ''sub_association''
                     then ModelMultipleChoiceField [''1'', ''2'', ''3''] else CharField)\<rparr>"

definition demo_help_text :: "string \<Rightarrow> string" where
  "demo_help_text name = (if name = ''photo_video_consent_internal'' then [] else ''Consent: '' @ name)"

definition demo_subscription :: querydict where
  "demo_subscription = map_of
     [(''first_name'', [''Anna'']), (''last_name'', [''Smit'']), (''initials'', [''A.'']),
      (''email'', [''anna@example.org'']), (''phone_number'', [''0612345678'']),
      (''street'', [''Den Dolech 2'']), (''postal_code'', [''5612 AZ'']), (''city'', [''Eindhoven'']),
      (''country'', [''NL'']), (''gender'', [''female'']), (''date_of_birth'', [''01-02-2000'']),
      (''preferred_language'', [''en'']), (''field_of_study'', [''Physics'']),
      (''is_student'', [''Yes'']), (''iban'', []), (''sub_association'', [''1'']),
      (''instruments'', [''2'', ''3'']), (''photo_video_consent_external_group'', [''Yes'']),
      (''photo_video_consent_external'', [''No'']), (''photo_video_consent_internal'', [''Yes'']),
      (''ensure_subscribe'', [''True'']), (''add_to_chats'', [''True''])]"

text \<open>The accounts, person ids and instruments of a small association.\<close>

definition demo_models :: members_models where
  "demo_models =
     \<lparr>User_usernames = [''anna'', ''bob''],
      Person_person_ids = [''1001'', ''1002''],
      Instrument_pks = [''1'', ''2'', ''3''],
      UsernameValidator = (\<lambda>v. case v of
                             PyStr s \<Rightarrow> if CHR '' '' \<in> set s
                                        then [(''Enter a valid username.'', Some ''invalid'')] else []
                           | _ \<Rightarrow> []),
      person_id_used_error = (''A person with this person ID already exists.'', None)\<rparr>"

text \<open>A profile submission with the email address left blank.\<close>

definition demo_profile :: querydict where
  "demo_profile = map_of
     [(''email'', [[]]), (''phone_number'', [''0612345678'']),
      (''street'', [''Den Dolech 2'']), (''postal_code'', [''5612 AZ'']), (''city'', [''Eindhoven'']),
      (''country'', [''NL'']), (''preferred_language'', [''en''])]"

text \<open>A request for a new account, with no instruments selected.\<close>

definition demo_request :: querydict where
  "demo_request = map_of [(''username'', ['' carol '']), (''person_id'', [''1003''])]"

section \<open>The bind helper\<close>

text \<open>
  Claim C2. \<^verbatim>\<open>try_ldap_bind\<close> returns \<^verbatim>\<open>False\<close> exactly when the bind raises the
  directory's invalid-credentials error, returns \<^verbatim>\<open>True\<close> when the bind completes, and
  lets every other exception of the bind reach the caller.
\<close>

theorem try_ldap_bind_result:
  "(fst (try_ldap_bind d user pw) = Inr False
      \<longleftrightarrow> d (Some user) (Some pw) = Some LDAPInvalidCredentialsResult)
   \<and> (d (Some user) (Some pw) = None \<longrightarrow> fst (try_ldap_bind d user pw) = Inr True)
   \<and> (\<forall>e. d (Some user) (Some pw) = Some e \<and> e \<noteq> LDAPInvalidCredentialsResult
          \<longrightarrow> fst (try_ldap_bind d user pw) = Inl e)"
  by (auto simp add: try_ldap_bind_def get_connection_def bind_def unbind_def Let_def
      split: option.split exn.split)

theorem try_ldap_bind_result_witness:
  "fst (try_ldap_bind demo_directory ''uid=anna,ou=people,dc=esmgquadrivium,dc=nl'' ''s3cret'') = Inr True
   \<and> fst (try_ldap_bind demo_directory ''uid=anna,ou=people,dc=esmgquadrivium,dc=nl'' ''wrong'') = Inr False
   \<and> fst (try_ldap_bind demo_directory ''uid=anna,ou=people,dc=esmgquadrivium,dc=nl'' ''boom'')
       = Inl (OtherException ''LDAPSocketOpenError'')"
  using try_ldap_bind_result [of demo_directory "''uid=anna,ou=people,dc=esmgquadrivium,dc=nl''" "''s3cret''"]
    try_ldap_bind_result [of demo_directory "''uid=anna,ou=people,dc=esmgquadrivium,dc=nl''" "''wrong''"]
    try_ldap_bind_result [of demo_directory "''uid=anna,ou=people,dc=esmgquadrivium,dc=nl''" "''boom''"]
  by (simp add: demo_directory_def)

text \<open>
  Claim C3. Whatever the bind does (it completes, it raises the invalid-credentials
  error, it raises anything else), the calls made on the connection when control is
  back at the caller are the bind followed by one unbind: the connection is released
  exactly once.
\<close>

theorem try_ldap_bind_unbinds_once:
  "calls (snd (try_ldap_bind d user pw)) = [Bind, Unbind]
   \<and> count_list (calls (snd (try_ldap_bind d user pw))) Unbind = 1"
  by (simp add: try_ldap_bind_def get_connection_def bind_def unbind_def Let_def
      split: option.split exn.split)

section \<open>The old password of the password change form\<close>

text \<open>
  Claim C1. For an account whose stored password is the sentinel \<^verbatim>\<open>invalid\<close>, the old
  password is checked by the bind helper alone, called with the identity
  \<^verbatim>\<open>uid=<username>,ou=people,dc=esmgquadrivium,dc=nl\<close> and the submitted old password: when
  the helper returns \<^verbatim>\<open>False\<close> a validation error with the code \<^verbatim>\<open>password_incorrect\<close> is
  raised, when it returns \<^verbatim>\<open>True\<close> the submitted value is the cleaned old password, the
  one connection used is that of this call of the helper, and the local comparison of
  the base class has no influence on the outcome.
\<close>

theorem clean_old_password_ldap:
  assumes "password (form_user self) = ''invalid''"
    and "cleaned_data self ''old_password'' = Some p"
  shows "(fst (try_ldap_bind d (''uid='' @ username (form_user self) @ '',ou=people,dc=esmgquadrivium,dc=nl'') p) = Inr False
            \<longrightarrow> fst (clean_old_password d chk self)
                  = Inl (ValidationError [(error_messages self ''password_incorrect'', Some ''password_incorrect'')]))
       \<and> (fst (try_ldap_bind d (''uid='' @ username (form_user self) @ '',ou=people,dc=esmgquadrivium,dc=nl'') p) = Inr True
            \<longrightarrow> fst (clean_old_password d chk self) = Inr p)
       \<and> snd (clean_old_password d chk self)
           = [snd (try_ldap_bind d (''uid='' @ username (form_user self) @ '',ou=people,dc=esmgquadrivium,dc=nl'') p)]
       \<and> (\<forall>chk'. clean_old_password d chk' self = clean_old_password d chk self)"
  using assms
  by (simp add: clean_old_password_def Let_def split: prod.split sum.split)

theorem clean_old_password_ldap_witness:
  "fst (clean_old_password demo_directory (\<lambda>_ _. False) (demo_form ''invalid'' ''s3cret'')) = Inr ''s3cret''
   \<and> fst (clean_old_password demo_directory (\<lambda>_ _. True) (demo_form ''invalid'' ''wrong''))
       = Inl (ValidationError [(''Your old password was entered incorrectly. Please enter it again.'',
                                 Some ''password_incorrect'')])"
proof -
  have ok: "fst (try_ldap_bind demo_directory (''uid='' @ ''anna'' @ '',ou=people,dc=esmgquadrivium,dc=nl'') ''s3cret'') = Inr True"
    by (simp add: try_ldap_bind_def get_connection_def bind_def unbind_def demo_directory_def)
  have bad: "fst (try_ldap_bind demo_directory (''uid='' @ ''anna'' @ '',ou=people,dc=esmgquadrivium,dc=nl'') ''wrong'') = Inr False"
    by (simp add: try_ldap_bind_def get_connection_def bind_def unbind_def demo_directory_def)
  show ?thesis
    using clean_old_password_ldap [of "demo_form ''invalid'' ''s3cret''" "''s3cret''" demo_directory "\<lambda>_ _. False"]
      clean_old_password_ldap [of "demo_form ''invalid'' ''wrong''" "''wrong''" demo_directory "\<lambda>_ _. True"]
      ok bad
    by (simp add: demo_form_def)
qed

text \<open>
  Claim C4. For an account whose stored password is not the sentinel, no directory
  connection is used and the outcome is that of the base class's local comparison; so
  the outcome is the same for any two behaviours of the directory.
\<close>

theorem clean_old_password_local:
  assumes "password (form_user self) \<noteq> ''invalid''"
  shows "clean_old_password d chk self = (PasswordChangeForm_clean_old_password chk self, [])
       \<and> (\<forall>d'. clean_old_password d' chk self = clean_old_password d chk self)"
  using assms by (simp add: clean_old_password_def)

theorem clean_old_password_local_witness:
  "clean_old_password demo_directory (\<lambda>u p. password u = p) (demo_form ''hunter2'' ''s3cret'')
     = (Inl (ValidationError [(''Your old password was entered incorrectly. Please enter it again.'',
                                 Some ''password_incorrect'')]), [])
   \<and> clean_old_password demo_directory (\<lambda>u p. password u = p) (demo_form ''hunter2'' ''hunter2'')
     = (Inr ''hunter2'', [])"
  using clean_old_password_local [of "demo_form ''hunter2'' ''s3cret''" demo_directory "\<lambda>u p. password u = p"]
    clean_old_password_local [of "demo_form ''hunter2'' ''hunter2''" demo_directory "\<lambda>u p. password u = p"]
  by (simp add: demo_form_def PasswordChangeForm_clean_old_password_def)

section \<open>Validation of a form without field hooks\<close>

lemma clean_fields_no_hooks:
  "\<exists>cd. clean_fields (\<lambda>_. None) data flds st = Inr (cd, snd st @ field_errors data flds)"
proof (induction flds arbitrary: st)
  case Nil
  then show ?case by (cases st) (simp add: field_errors_def)
next
  case (Cons p flds)
  obtain n f where p: "p = (n, f)" by (cases p)
  show ?case
  proof (cases "field_clean f data n")
    case (Inl es)
    with Cons.IH [of "add_error (Some n) es st"] p show ?thesis
      by (auto simp: field_errors_def add_error_def)
  next
    case (Inr v)
    with Cons.IH [of "((fst st)(n \<mapsto> v), snd st)"] p show ?thesis
      by (auto simp: field_errors_def Let_def)
  qed
qed

lemma clean_fields_no_hooks_value:
  assumes "clean_fields (\<lambda>_. None) data flds st = Inr st'" and "distinct (map fst flds)"
  shows "fst st' x = (case map_of flds x of
                         None \<Rightarrow> fst st x
                       | Some f \<Rightarrow> (case field_clean f data x of Inl _ \<Rightarrow> None | Inr v \<Rightarrow> Some v))"
  using assms
proof (induction flds arbitrary: st)
  case Nil
  then show ?case by simp
next
  case (Cons p flds)
  obtain n f where p: "p = (n, f)" by (cases p)
  from Cons.prems p have nin: "map_of flds n = None" and dist: "distinct (map fst flds)"
    by (auto simp: map_of_eq_None_iff)
  show ?case
  proof (cases "field_clean f data n")
    case (Inl es)
    with Cons.prems p have "clean_fields (\<lambda>_. None) data flds (add_error (Some n) es st) = Inr st'"
      by simp
    from Cons.IH [OF this dist] Inl p nin show ?thesis
      by (auto simp: add_error_def split: option.split)
  next
    case (Inr v)
    with Cons.prems p have "clean_fields (\<lambda>_. None) data flds ((fst st)(n \<mapsto> v), snd st) = Inr st'"
      by (simp add: Let_def)
    from Cons.IH [OF this dist] Inr p nin show ?thesis
      by (auto split: option.split)
  qed
qed

lemma field_errors_member:
  assumes "(n, f) \<in> set flds" and "field_clean f data n = Inl es"
  shows "(Some n, es) \<in> set (field_errors data flds)"
  using assms by (force simp: field_errors_def)

lemma field_errors_Nil:
  assumes "field_errors data flds = []" and "(n, f) \<in> set flds"
  shows "\<exists>v. field_clean f data n = Inr v"
  using assms by (cases "field_clean f data n") (force simp: field_errors_def)+

lemma fold_add_error:
  "snd (fold (\<lambda>(fld, es). add_error fld es) xs st) = snd st @ xs"
  by (induction xs arbitrary: st) (auto simp: add_error_def split: option.split)

lemma fold_add_error_None:
  "fst st x = None \<Longrightarrow> fst (fold (\<lambda>(fld, es). add_error fld es) xs st) x = None"
  by (induction xs arbitrary: st) (auto simp: add_error_def split: option.split)

lemma post_clean_errors: "snd (post_clean me st) = snd st @ me (fst st)"
  by (simp add: post_clean_def fold_add_error)

lemma post_clean_None: "fst st x = None \<Longrightarrow> fst (post_clean me st) x = None"
  by (simp add: post_clean_def fold_add_error_None)

lemma post_clean_valid:
  assumes "snd (post_clean me st) = []"
  shows "post_clean me st = st"
proof -
  from assms have "me (fst st) = []"
    by (simp add: post_clean_errors)
  then show ?thesis
    by (simp add: post_clean_def)
qed

lemma map_fst_update_field: "map fst (update_field n u flds) = map fst flds"
  by (induction flds) (auto simp: update_field_def)

lemma map_of_update_field:
  "map_of (update_field n u flds) x = (if x = n then map_option u (map_of flds x) else map_of flds x)"
  by (induction flds) (auto simp: update_field_def)

lemma map_fst_set_field:
  "n \<in> set (map fst flds) \<Longrightarrow> map fst (set_field n f flds) = map fst flds"
  by (simp add: set_field_def map_fst_update_field)

lemma map_of_set_field:
  "n \<in> set (map fst flds) \<Longrightarrow> map_of (set_field n f flds) x = (if x = n then Some f else map_of flds x)"
  using map_of_eq_None_iff [of flds n]
  by (cases "map_of flds n") (auto simp: set_field_def map_of_update_field)

lemma map_fst_fold_update:
  "map fst (fold (\<lambda>n. update_field n u) names flds) = map fst flds"
  by (induction names arbitrary: flds) (auto simp: map_fst_update_field)

lemma map_of_fold_required:
  "map_of (fold (\<lambda>n. update_field n (\<lambda>f. f\<lparr>required := True\<rparr>)) names flds) x
     = map_option (\<lambda>f. if x \<in> set names then f\<lparr>required := True\<rparr> else f) (map_of flds x)"
proof (induction names arbitrary: flds)
  case Nil
  then show ?case by (simp add: option.map_ident)
next
  case (Cons n names)
  show ?case
    by (cases "map_of flds x") (auto simp: Cons.IH map_of_update_field)
qed

lemma map_of_keys: "map_of (map (\<lambda>k. (k, g k)) ks) x = (if x \<in> set ks then Some (g x) else None)"
  by (induction ks) auto

lemma py_strip_Nil: "py_strip [] = []"
  by (simp add: py_strip_def)

lemma field_clean_required:
  assumes "required f" and "no_answer f data name"
  shows "field_clean f data name = Inl [required_error]"
  using assms
  by (cases "field_class f")
    (auto simp: field_clean_def to_python_def validate_def no_answer_def py_strip_Nil)

lemma fold_set_field_keys:
  "set names \<subseteq> set (map fst flds)
     \<Longrightarrow> map fst (fold (\<lambda>field flds. set_field field (mk flds field) flds) names flds) = map fst flds"
proof (induction names arbitrary: flds)
  case Nil
  then show ?case by simp
next
  case (Cons n names)
  from Cons.prems have n: "n \<in> set (map fst flds)" by simp
  then have keys: "map fst (set_field n (mk flds n) flds) = map fst flds"
    by (rule map_fst_set_field)
  with Cons.prems have "set names \<subseteq> set (map fst (set_field n (mk flds n) flds))"
    by simp
  from Cons.IH [OF this] keys show ?case by simp
qed

lemma fold_set_field_other:
  "set names \<subseteq> set (map fst flds) \<Longrightarrow> x \<notin> set names
     \<Longrightarrow> map_of (fold (\<lambda>field flds. set_field field (mk flds field) flds) names flds) x = map_of flds x"
proof (induction names arbitrary: flds)
  case Nil
  then show ?case by simp
next
  case (Cons n names)
  from Cons.prems have n: "n \<in> set (map fst flds)" and sub: "set names \<subseteq> set (map fst (set_field n (mk flds n) flds))"
    by (auto simp: map_fst_set_field)
  from Cons.prems have "x \<notin> set names" "x \<noteq> n" by auto
  with Cons.IH [OF sub] n show ?case
    by (simp add: map_of_set_field)
qed

lemma fold_set_field_this:
  "set names \<subseteq> set (map fst flds) \<Longrightarrow> x \<in> set names
     \<Longrightarrow> \<exists>fl. map_of (fold (\<lambda>field flds. set_field field (mk flds field) flds) names flds) x
              = Some (mk fl x)"
proof (induction names arbitrary: flds)
  case Nil
  then show ?case by simp
next
  case (Cons n names)
  from Cons.prems have n: "n \<in> set (map fst flds)" and sub: "set names \<subseteq> set (map fst (set_field n (mk flds n) flds))"
    by (auto simp: map_fst_set_field)
  show ?case
  proof (cases "x \<in> set names")
    case True
    from Cons.IH [OF sub True] show ?thesis by simp
  next
    case False
    with Cons.prems have "x = n" by simp
    with False fold_set_field_other [OF sub False, of mk] n show ?thesis
      by (auto simp: map_of_set_field)
  qed
qed

section \<open>The required fields of the profile form\<close>

lemma distinct_ProfileForm_fields: "distinct ProfileForm_Meta_fields"
  by (simp add: ProfileForm_Meta_fields_def)

lemma ProfileForm_init_keys: "map fst (ProfileForm_init ff) = ProfileForm_Meta_fields"
  by (simp add: ProfileForm_init_def Let_def map_fst_fold_update map_fst_update_field comp_def
      ProfileForm_Meta_fields_def)

lemma ProfileForm_init_alt:
  "ProfileForm_init ff =
     fold (\<lambda>f. update_field f (\<lambda>x. x\<lparr>required := True\<rparr>)) ProfileForm_Meta_fields
       (update_field ''email''
          (\<lambda>f. f\<lparr>help_text := Some (''If you change your email address, '' @
                                   ''members mail will be sent to the new address.'')\<rparr>)
          (map (\<lambda>name. (name, ff name)) ProfileForm_Meta_fields))"
  by (simp only: ProfileForm_init_def Let_def ProfileForm_Meta_fields_def)

lemma ProfileForm_init_field:
  assumes "name \<in> set ProfileForm_Meta_fields"
  shows "\<exists>f. map_of (ProfileForm_init ff) name = Some f \<and> required f
             \<and> field_class f = field_class (ff name)"
proof -
  have "''email'' \<in> set ProfileForm_Meta_fields"
    by (simp add: ProfileForm_Meta_fields_def)
  with assms show ?thesis
    by (simp add: ProfileForm_init_alt map_of_fold_required map_of_update_field map_of_keys)
qed

lemma clean_form_Form_clean: "clean_form Form_clean st = Inr st"
  by (simp add: clean_form_def Form_clean_def)

text \<open>
  Claim C9. Each of the seven editable fields of the profile form is marked required,
  and a submission that leaves one of them unanswered is rejected with the error
  \<^verbatim>\<open>required\<close> on that field, whatever the model layer says about the column (in
  particular when the record allows it to be left out).
\<close>

theorem ProfileForm_required_fields:
  assumes "name \<in> set ProfileForm_Meta_fields"
  shows "(\<exists>f. map_of (ProfileForm_init formfield) name = Some f \<and> required f)
       \<and> (no_answer (formfield name) data name \<longrightarrow>
            (\<exists>cd errs. ProfileForm_full_clean formfield model_errors data = Inr (cd, errs)
                 \<and> (Some name, [required_error]) \<in> set errs \<and> cd name = None
                 \<and> is_valid (ProfileForm_full_clean formfield model_errors data) = Inr False))"
proof -
  let ?flds = "ProfileForm_init formfield"
  from ProfileForm_init_field [OF assms, of formfield] obtain f where
    f: "map_of ?flds name = Some f" "required f" "field_class f = field_class (formfield name)"
    by blast
  have "\<exists>cd errs. ProfileForm_full_clean formfield model_errors data = Inr (cd, errs)
                 \<and> (Some name, [required_error]) \<in> set errs \<and> cd name = None
                 \<and> is_valid (ProfileForm_full_clean formfield model_errors data) = Inr False"
    if na: "no_answer (formfield name) data name"
  proof -
    from na f(3) have "no_answer f data name"
      by (simp add: no_answer_def)
    from field_clean_required [OF f(2) this] have fc: "field_clean f data name = Inl [required_error]" .
    from clean_fields_no_hooks [of data ?flds "(Map.empty, [])"] obtain cd0 where
      r: "clean_fields (\<lambda>_. None) data ?flds (Map.empty, []) = Inr (cd0, field_errors data ?flds)"
      by auto
    have "distinct (map fst ?flds)"
      by (simp add: ProfileForm_init_keys distinct_ProfileForm_fields)
    from clean_fields_no_hooks_value [OF r this, of name] f(1) fc have none: "cd0 name = None"
      by simp
    from f(1) have "(name, f) \<in> set ?flds" by (rule map_of_SomeD)
    from field_errors_member [OF this fc] have mem: "(Some name, [required_error]) \<in> set (field_errors data ?flds)" .
    let ?st = "post_clean model_errors (cd0, field_errors data ?flds)"
    have full: "ProfileForm_full_clean formfield model_errors data = Inr ?st"
      by (simp add: ProfileForm_full_clean_def full_clean_def r clean_form_Form_clean)
    from post_clean_None [of "(cd0, field_errors data ?flds)" name model_errors] none
    have n: "fst ?st name = None" by simp
    from post_clean_errors [of model_errors "(cd0, field_errors data ?flds)"] mem
    have e: "(Some name, [required_error]) \<in> set (snd ?st)" by simp
    then have "snd ?st \<noteq> []" by auto
    with full have "is_valid (ProfileForm_full_clean formfield model_errors data) = Inr False"
      by (simp add: is_valid_def)
    with full n e show ?thesis
      by (cases ?st) auto
  qed
  with f show ?thesis by blast
qed

theorem ProfileForm_required_fields_witness:
  "''email'' \<in> set ProfileForm_Meta_fields \<and> \<not> required (demo_formfield ''email'')
   \<and> no_answer (demo_formfield ''email'') demo_profile ''email''
   \<and> is_valid (ProfileForm_full_clean demo_formfield (\<lambda>_. []) demo_profile) = Inr False"
proof -
  have n: "''email'' \<in> set ProfileForm_Meta_fields"
    by (simp add: ProfileForm_Meta_fields_def)
  have a: "no_answer (demo_formfield ''email'') demo_profile ''email''"
    by (simp add: no_answer_def demo_formfield_def demo_profile_def QueryDict_get_def)
  from ProfileForm_required_fields [OF n, of demo_formfield demo_profile "\<lambda>_. []"] a
  have "is_valid (ProfileForm_full_clean demo_formfield (\<lambda>_. []) demo_profile) = Inr False"
    by blast
  with n a show ?thesis by (simp add: demo_formfield_def)
qed

section \<open>The fields of the subscription form\<close>

lemma boolean_choices_fields: "set SubscribeForm_Meta_boolean_choices \<subseteq> set SubscribeForm_Meta_fields"
  by (simp add: SubscribeForm_Meta_boolean_choices_def SubscribeForm_Meta_fields_def)

lemma boolean_choices_required: "set SubscribeForm_Meta_boolean_choices \<subseteq> set SubscribeForm_Meta_required"
  by (simp add: SubscribeForm_Meta_boolean_choices_def SubscribeForm_Meta_required_def)

lemma distinct_boolean_choices: "distinct SubscribeForm_Meta_boolean_choices"
  by (simp add: SubscribeForm_Meta_boolean_choices_def)

lemma distinct_SubscribeForm_fields: "distinct SubscribeForm_Meta_fields"
  by (simp add: SubscribeForm_Meta_fields_def)

lemma map_fst_keys: "map fst (map (\<lambda>k. (k, g k)) ks) = ks"
  by (induction ks) auto

lemma populate_keys:
  assumes "set SubscribeForm_Meta_boolean_choices \<subseteq> set (map fst flds)"
  shows "map fst (populate_boolean_fields mh flds) = map fst flds"
  using assms unfolding populate_boolean_fields_def Let_def
  by (rule fold_set_field_keys)

lemma populate_other:
  assumes "set SubscribeForm_Meta_boolean_choices \<subseteq> set (map fst flds)"
    and "x \<notin> set SubscribeForm_Meta_boolean_choices"
  shows "map_of (populate_boolean_fields mh flds) x = map_of flds x"
  using assms unfolding populate_boolean_fields_def Let_def
  by (rule fold_set_field_other)

lemma populate_this:
  assumes "set SubscribeForm_Meta_boolean_choices \<subseteq> set (map fst flds)"
    and "x \<in> set SubscribeForm_Meta_boolean_choices"
  shows "\<exists>l h fl. map_of (populate_boolean_fields mh flds) x = Some (boolean_choice_field l h fl x)"
proof -
  from fold_set_field_this [OF assms]
  show ?thesis unfolding populate_boolean_fields_def Let_def by blast
qed

lemma SubscribeForm_init_keys: "map fst (SubscribeForm_init ff mh) = SubscribeForm_Meta_fields"
  using boolean_choices_fields
  by (simp add: SubscribeForm_init_def Let_def map_fst_fold_update map_fst_update_field
      populate_keys comp_def)

lemma SubscribeForm_boolean_field:
  assumes "name \<in> set SubscribeForm_Meta_boolean_choices"
  shows "\<exists>f. map_of (SubscribeForm_init ff mh) name = Some f \<and> required f
             \<and> field_class f = ChoiceField [(''Yes'', ''Yes''), (''No'', ''No'')] \<and> validators f = []"
proof -
  let ?base = "map (\<lambda>name. (name, case map_of SubscribeForm_declared_fields name of
                                      None \<Rightarrow> ff name | Some f \<Rightarrow> f)) SubscribeForm_Meta_fields"
  have sub: "set SubscribeForm_Meta_boolean_choices \<subseteq> set (map fst ?base)"
    using boolean_choices_fields by (simp add: map_fst_keys)
  from populate_this [OF sub assms] obtain l h fl where
    "map_of (populate_boolean_fields mh ?base) name = Some (boolean_choice_field l h fl name)"
    by blast
  moreover from assms have "name \<noteq> ''date_of_birth''"
    by (auto simp: SubscribeForm_Meta_boolean_choices_def)
  moreover from assms boolean_choices_required have "name \<in> set SubscribeForm_Meta_required"
    by blast
  ultimately show ?thesis
    by (simp add: SubscribeForm_init_def Let_def map_of_fold_required map_of_update_field
        boolean_choice_field_def)
qed

lemma declared_checkbox:
  assumes "name = ''add_to_chats'' \<or> name = ''ensure_subscribe''"
  shows "\<exists>f lbl. map_of SubscribeForm_declared_fields name = Some f \<and> required f
             \<and> field_class f = MultipleChoiceField [(''True'', lbl)] \<and> validators f = []"
  using assms by (auto simp: SubscribeForm_declared_fields_def)

lemma checkbox_names:
  assumes "name = ''add_to_chats'' \<or> name = ''ensure_subscribe''"
  shows "name \<in> set SubscribeForm_Meta_fields" and "name \<notin> set SubscribeForm_Meta_boolean_choices"
    and "name \<in> set SubscribeForm_Meta_required" and "name \<noteq> ''date_of_birth''"
  using assms
  by (auto simp: SubscribeForm_Meta_fields_def SubscribeForm_Meta_boolean_choices_def
      SubscribeForm_Meta_required_def)

section \<open>Validation of the subscription form\<close>

lemma boolean_field_clean:
  assumes "required f" and "field_class f = ChoiceField [(''Yes'', ''Yes''), (''No'', ''No'')]"
    and "validators f = []"
  shows "field_clean f data n =
           (case QueryDict_get data n of
              None \<Rightarrow> Inl [required_error]
            | Some s \<Rightarrow> if s = [] then Inl [required_error]
                        else if s = ''Yes'' \<or> s = ''No'' then Inr (PyStr s)
                        else Inl [invalid_choice_error])"
  using assms
  by (auto simp: field_clean_def to_python_def validate_def run_validators_def valid_value_def
      split: option.split)

lemma checkbox_field_clean:
  assumes "required f" and "field_class f = MultipleChoiceField [(''True'', lbl)]"
    and "validators f = []"
  shows "field_clean f data n =
           (if QueryDict_getlist data n = [] then Inl [required_error]
            else if \<exists>x \<in> set (QueryDict_getlist data n). x \<noteq> ''True'' then Inl [invalid_choice_error]
            else Inr (PyList (QueryDict_getlist data n)))"
  using assms
  by (auto simp: field_clean_def to_python_def validate_def run_validators_def valid_value_def)

lemma checkbox_unchecked:
  assumes "required f" and "field_class f = MultipleChoiceField [(''True'', lbl)]"
    and "validators f = []" and "''True'' \<notin> set (QueryDict_getlist data n)"
  shows "\<exists>es. field_clean f data n = Inl es \<and> es \<noteq> []"
proof (cases "QueryDict_getlist data n = []")
  case True
  with assms show ?thesis by (simp add: checkbox_field_clean)
next
  case False
  then obtain x where "x \<in> set (QueryDict_getlist data n)"
    by (cases "QueryDict_getlist data n") auto
  with assms(4) have "\<exists>x \<in> set (QueryDict_getlist data n). x \<noteq> ''True''" by metis
  with False assms show ?thesis by (simp add: checkbox_field_clean)
qed

lemma cast_KeyError:
  "n \<in> set names \<Longrightarrow> cd n = None \<Longrightarrow> \<exists>k \<in> set names. cast_boolean_choices names cd = Inl (KeyError k)"
proof (induction names arbitrary: cd)
  case Nil
  then show ?case by simp
next
  case (Cons a names)
  show ?case
  proof (cases "cd a")
    case None
    then show ?thesis by simp
  next
    case (Some v)
    with Cons.prems have "n \<in> set names" and "(cd(a \<mapsto> PyBool (v = PyStr ''Yes''))) n = None"
      by auto
    from Cons.IH [of "cd(a \<mapsto> PyBool (v = PyStr ''Yes''))", OF this] obtain k where
      k: "k \<in> set names"
        "cast_boolean_choices names (cd(a \<mapsto> PyBool (v = PyStr ''Yes''))) = Inl (KeyError k)"
      by blast
    show ?thesis
      by (rule bexI [of _ k]) (use k Some in simp_all)
  qed
qed

lemma cast_raises_KeyError:
  "cast_boolean_choices names cd = Inl e \<Longrightarrow> \<exists>k \<in> set names. e = KeyError k \<and> (\<exists>n \<in> set names. cd n = None)"
proof (induction names arbitrary: cd)
  case Nil
  then show ?case by simp
next
  case (Cons a names)
  show ?case
  proof (cases "cd a")
    case None
    with Cons.prems show ?thesis by auto
  next
    case (Some v)
    with Cons.prems have "cast_boolean_choices names (cd(a \<mapsto> PyBool (v = PyStr ''Yes''))) = Inl e"
      by simp
    from Cons.IH [OF this] Some show ?thesis
      by (auto split: if_splits)
  qed
qed

lemma cast_other:
  "cast_boolean_choices names cd = Inr cd' \<Longrightarrow> x \<notin> set names \<Longrightarrow> cd' x = cd x"
proof (induction names arbitrary: cd)
  case Nil
  then show ?case by simp
next
  case (Cons a names)
  then show ?case
    by (cases "cd a") auto
qed

lemma cast_this:
  "cast_boolean_choices names cd = Inr cd' \<Longrightarrow> distinct names \<Longrightarrow> n \<in> set names
     \<Longrightarrow> \<exists>v. cd n = Some v \<and> cd' n = Some (PyBool (v = PyStr ''Yes''))"
proof (induction names arbitrary: cd)
  case Nil
  then show ?case by simp
next
  case (Cons a names)
  from Cons.prems(1) obtain v where v: "cd a = Some v"
    and rest: "cast_boolean_choices names (cd(a \<mapsto> PyBool (v = PyStr ''Yes''))) = Inr cd'"
    by (cases "cd a") auto
  show ?case
  proof (cases "n = a")
    case True
    with Cons.prems(2) have "a \<notin> set names" by simp
    from cast_other [OF rest this] v True show ?thesis by simp
  next
    case False
    with Cons.prems have "n \<in> set names" "distinct names" by auto
    from Cons.IH [OF rest this(2) this(1)] False show ?thesis by simp
  qed
qed

lemma SubscribeForm_clean_Inl:
  "SubscribeForm_clean cd = Inl e \<Longrightarrow> \<exists>k. e = KeyError k"
  by (auto simp: SubscribeForm_clean_def Form_clean_def split: sum.splits dest: cast_raises_KeyError)

lemma clean_form_SubscribeForm:
  "clean_form SubscribeForm_clean st =
     (case SubscribeForm_clean (fst st) of Inl e \<Rightarrow> Inl e | Inr cd \<Rightarrow> Inr (cd, snd st))"
proof (cases "SubscribeForm_clean (fst st)")
  case (Inl e)
  with SubscribeForm_clean_Inl [OF Inl] show ?thesis
    by (auto simp: clean_form_def)
next
  case (Inr cd)
  then show ?thesis by (simp add: clean_form_def)
qed

lemma SubscribeForm_fields_result:
  "\<exists>cd0. clean_fields (\<lambda>_. None) data (SubscribeForm_init ff mh) (Map.empty, [])
            = Inr (cd0, field_errors data (SubscribeForm_init ff mh))
         \<and> (\<forall>x. cd0 x = (case map_of (SubscribeForm_init ff mh) x of
                           None \<Rightarrow> None
                         | Some f \<Rightarrow> (case field_clean f data x of Inl _ \<Rightarrow> None | Inr v \<Rightarrow> Some v)))"
proof -
  from clean_fields_no_hooks [of data "SubscribeForm_init ff mh" "(Map.empty, [])"]
  obtain cd0 where r: "clean_fields (\<lambda>_. None) data (SubscribeForm_init ff mh) (Map.empty, [])
       = Inr (cd0, field_errors data (SubscribeForm_init ff mh))"
    by auto
  have "distinct (map fst (SubscribeForm_init ff mh))"
    by (simp add: SubscribeForm_init_keys distinct_SubscribeForm_fields)
  from clean_fields_no_hooks_value [OF r this] have
    "\<forall>x. cd0 x = (case map_of (SubscribeForm_init ff mh) x of
                         None \<Rightarrow> None
                       | Some f \<Rightarrow> (case field_clean f data x of Inl _ \<Rightarrow> None | Inr v \<Rightarrow> Some v))"
    by (simp split: option.split)
  with r show ?thesis by blast
qed

text \<open>
  Whenever a boolean choice field is not answered \<^verbatim>\<open>Yes\<close> or \<^verbatim>\<open>No\<close>, the validation
  of the subscription form raises \<^verbatim>\<open>KeyError\<close>.
\<close>

lemma SubscribeForm_KeyError:
  assumes "name \<in> set SubscribeForm_Meta_boolean_choices"
    and "QueryDict_get data name \<noteq> Some ''Yes''" and "QueryDict_get data name \<noteq> Some ''No''"
  shows "\<exists>k \<in> set SubscribeForm_Meta_boolean_choices.
           SubscribeForm_full_clean ff mh me data = Inl (KeyError k)"
proof -
  from SubscribeForm_fields_result [of data ff mh]
  obtain cd0 where r: "clean_fields (\<lambda>_. None) data (SubscribeForm_init ff mh) (Map.empty, [])
       = Inr (cd0, field_errors data (SubscribeForm_init ff mh))"
    and v: "\<And>x. cd0 x = (case map_of (SubscribeForm_init ff mh) x of
                         None \<Rightarrow> None
                       | Some f \<Rightarrow> (case field_clean f data x of Inl _ \<Rightarrow> None | Inr v \<Rightarrow> Some v))"
    by blast
  from SubscribeForm_boolean_field [OF assms(1), of ff mh] obtain f where
    f: "map_of (SubscribeForm_init ff mh) name = Some f" "required f"
      "field_class f = ChoiceField [(''Yes'', ''Yes''), (''No'', ''No'')]" "validators f = []"
    by blast
  from assms(2,3) have "\<exists>es. field_clean f data name = Inl es"
    by (simp add: boolean_field_clean [OF f(2,3,4)] split: option.split)
  with v [of name] f(1) have "cd0 name = None" by auto
  from cast_KeyError [of name SubscribeForm_Meta_boolean_choices cd0, OF assms(1) this] obtain k where
    k: "k \<in> set SubscribeForm_Meta_boolean_choices"
      "cast_boolean_choices SubscribeForm_Meta_boolean_choices cd0 = Inl (KeyError k)"
    by blast
  then have "SubscribeForm_full_clean ff mh me data = Inl (KeyError k)"
    by (simp add: SubscribeForm_full_clean_def full_clean_def r clean_form_SubscribeForm
        SubscribeForm_clean_def)
  with k(1) show ?thesis by blast
qed

lemma cast_succeeds:
  "\<forall>n \<in> set names. cd n \<noteq> None \<Longrightarrow> \<exists>cd'. cast_boolean_choices names cd = Inr cd'"
proof (induction names arbitrary: cd)
  case Nil
  then show ?case by simp
next
  case (Cons a names)
  then obtain v where v: "cd a = Some v" by auto
  from Cons.prems have "\<forall>n \<in> set names. (cd(a \<mapsto> PyBool (v = PyStr ''Yes''))) n \<noteq> None"
    by simp
  from Cons.IH [OF this] obtain cd' where
    "cast_boolean_choices names (cd(a \<mapsto> PyBool (v = PyStr ''Yes''))) = Inr cd'"
    by blast
  with v show ?case by simp
qed

text \<open>
  Claim C6. When a subscription validates, every boolean choice field was answered
  \<^verbatim>\<open>Yes\<close> or \<^verbatim>\<open>No\<close>, that text is the field's validated value, the form's
  \<^verbatim>\<open>clean\<close> returns the cleaned data with the value rewritten, and the cleaned value is
  the boolean \<^verbatim>\<open>True\<close> for \<^verbatim>\<open>Yes\<close> and \<^verbatim>\<open>False\<close> for \<^verbatim>\<open>No\<close>.
\<close>

theorem SubscribeForm_boolean_values:
  assumes "SubscribeForm_full_clean ff mh me data = Inr (cd, [])"
    and "name \<in> set SubscribeForm_Meta_boolean_choices"
  shows "\<exists>cd0 s. clean_fields (\<lambda>_. None) data (SubscribeForm_init ff mh) (Map.empty, []) = Inr (cd0, [])
            \<and> QueryDict_get data name = Some s \<and> cd0 name = Some (PyStr s) \<and> (s = ''Yes'' \<or> s = ''No'')
            \<and> SubscribeForm_clean cd0 = Inr cd
            \<and> cd name = Some (PyBool (s = ''Yes''))"
proof -
  from SubscribeForm_fields_result [of data ff mh]
  obtain cd0 where r: "clean_fields (\<lambda>_. None) data (SubscribeForm_init ff mh) (Map.empty, [])
       = Inr (cd0, field_errors data (SubscribeForm_init ff mh))"
    and v: "\<And>x. cd0 x = (case map_of (SubscribeForm_init ff mh) x of
                         None \<Rightarrow> None
                       | Some f \<Rightarrow> (case field_clean f data x of Inl _ \<Rightarrow> None | Inr v \<Rightarrow> Some v))"
    by blast
  from assms(1) r obtain cd1 where
    c: "SubscribeForm_clean cd0 = Inr cd1"
    and p: "post_clean me (cd1, field_errors data (SubscribeForm_init ff mh)) = (cd, [])"
    by (auto simp: SubscribeForm_full_clean_def full_clean_def clean_form_SubscribeForm
        split: sum.splits)
  from p have "snd (post_clean me (cd1, field_errors data (SubscribeForm_init ff mh))) = []"
    by simp
  from post_clean_valid [OF this] p have fe: "field_errors data (SubscribeForm_init ff mh) = []"
    and cd1: "cd1 = cd"
    by simp_all
  from SubscribeForm_boolean_field [OF assms(2), of ff mh] obtain f where
    f: "map_of (SubscribeForm_init ff mh) name = Some f" "required f"
      "field_class f = ChoiceField [(''Yes'', ''Yes''), (''No'', ''No'')]" "validators f = []"
    by blast
  from f(1) have "(name, f) \<in> set (SubscribeForm_init ff mh)"
    by (rule map_of_SomeD)
  from field_errors_Nil [OF fe this] obtain w where w: "field_clean f data name = Inr w"
    by blast
  then obtain s where s: "QueryDict_get data name = Some s" "s = ''Yes'' \<or> s = ''No''" "w = PyStr s"
    by (auto simp: boolean_field_clean [OF f(2,3,4)] split: option.splits if_splits)
  from v [of name] f(1) w s have cd0: "cd0 name = Some (PyStr s)"
    by simp
  from c have "cast_boolean_choices SubscribeForm_Meta_boolean_choices cd0 = Inr cd1"
    by (auto simp: SubscribeForm_clean_def Form_clean_def split: sum.splits)
  from cast_this [OF this distinct_boolean_choices assms(2)] cd0 cd1
  have "cd name = Some (PyBool (s = ''Yes''))"
    by simp
  with r fe s cd0 c cd1 show ?thesis by auto
qed

lemma demo_subscription_valid:
  "case SubscribeForm_full_clean demo_formfield demo_help_text (\<lambda>_. []) demo_subscription of
     Inl e \<Rightarrow> False | Inr st \<Rightarrow> snd st = []"
  by code_simp

lemma demo_unanswered:
  "case SubscribeForm_full_clean demo_formfield demo_help_text (\<lambda>_. [])
          (demo_subscription(''is_student'' := None)) of
     Inl e \<Rightarrow> e = KeyError ''is_student'' | Inr st \<Rightarrow> False"
  by code_simp


text \<open>
  Claim C5. A subscription that leaves a boolean choice field unanswered should be
  rejected as invalid. The field's own cleaning does refuse the missing answer, but
  \<^verbatim>\<open>SubscribeForm.clean\<close> then indexes the cleaned data under that name: on the example
  submission with \<^verbatim>\<open>is_student\<close> left out, validation ends in an uncaught
  \<^verbatim>\<open>KeyError\<close>.
\<close>

theorem SubscribeForm_unanswered_raises:
  "no_answer \<lparr>required = True, label = None, help_text = None, input_formats = [], validators = [],
              field_class = ChoiceField [(''Yes'', ''Yes''), (''No'', ''No'')]\<rparr>
     (demo_subscription(''is_student'' := None)) ''is_student''
   \<and> SubscribeForm_full_clean demo_formfield demo_help_text (\<lambda>_. [])
        (demo_subscription(''is_student'' := None)) = Inl (KeyError ''is_student'')"
proof -
  have "no_answer \<lparr>required = True, label = None, help_text = None, input_formats = [], validators = [],
              field_class = ChoiceField [(''Yes'', ''Yes''), (''No'', ''No'')]\<rparr>
     (demo_subscription(''is_student'' := None)) ''is_student''"
    by (simp add: no_answer_def QueryDict_get_def)
  moreover from demo_unanswered
  have "SubscribeForm_full_clean demo_formfield demo_help_text (\<lambda>_. [])
        (demo_subscription(''is_student'' := None)) = Inl (KeyError ''is_student'')"
    by (simp split: sum.splits)
  ultimately show ?thesis by simp
qed

theorem SubscribeForm_boolean_values_witness:
  "\<exists>cd. SubscribeForm_full_clean demo_formfield demo_help_text (\<lambda>_. []) demo_subscription = Inr (cd, [])
      \<and> cd ''is_student'' = Some (PyBool True)
      \<and> cd ''photo_video_consent_external'' = Some (PyBool False)"
proof -
  from demo_subscription_valid obtain cd where
    v: "SubscribeForm_full_clean demo_formfield demo_help_text (\<lambda>_. []) demo_subscription = Inr (cd, [])"
    by (cases "SubscribeForm_full_clean demo_formfield demo_help_text (\<lambda>_. []) demo_subscription")
      auto
  have n1: "''is_student'' \<in> set SubscribeForm_Meta_boolean_choices"
    and n2: "''photo_video_consent_external'' \<in> set SubscribeForm_Meta_boolean_choices"
    by (simp_all add: SubscribeForm_Meta_boolean_choices_def)
  have g1: "QueryDict_get demo_subscription ''is_student'' = Some ''Yes''"
    and g2: "QueryDict_get demo_subscription ''photo_video_consent_external'' = Some ''No''"
    by (simp_all add: QueryDict_get_def demo_subscription_def)
  from SubscribeForm_boolean_values [OF v n1] g1 have "cd ''is_student'' = Some (PyBool True)"
    by auto
  moreover from SubscribeForm_boolean_values [OF v n2] g2
  have "cd ''photo_video_consent_external'' = Some (PyBool False)"
    by auto
  ultimately show ?thesis using v by blast
qed

text \<open>
  The two check box groups are the declared fields of the class, not fields of the model
  layer, and they are required. Leaving one unchecked puts an error on the field when
  the fields are cleaned, so the form never reports valid; validation comes back with
  that error whenever the four boolean choices are answered.
\<close>

lemma SubscribeForm_mandatory_checkboxes:
  assumes "name = ''add_to_chats'' \<or> name = ''ensure_subscribe''"
    and "''True'' \<notin> set (QueryDict_getlist data name)"
  shows "\<exists>f lbl cd0 errs0 es.
           map_of SubscribeForm_declared_fields name = Some f
         \<and> map_of (SubscribeForm_init ff mh) name = Some f
         \<and> required f \<and> field_class f = MultipleChoiceField [(''True'', lbl)]
         \<and> clean_fields (\<lambda>_. None) data (SubscribeForm_init ff mh) (Map.empty, []) = Inr (cd0, errs0)
         \<and> (Some name, es) \<in> set errs0 \<and> es \<noteq> [] \<and> cd0 name = None
         \<and> is_valid (SubscribeForm_full_clean ff mh me data) \<noteq> Inr True
         \<and> (\<forall>cd errs. SubscribeForm_full_clean ff mh me data = Inr (cd, errs)
               \<longrightarrow> (Some name, es) \<in> set errs \<and> cd name = None)
         \<and> ((\<forall>b \<in> set SubscribeForm_Meta_boolean_choices.
                QueryDict_get data b = Some ''Yes'' \<or> QueryDict_get data b = Some ''No'')
               \<longrightarrow> (\<exists>cd errs. SubscribeForm_full_clean ff mh me data = Inr (cd, errs)))"
proof -
  let ?flds = "SubscribeForm_init ff mh"
  from SubscribeForm_fields_result [of data ff mh]
  obtain cd0 where r: "clean_fields (\<lambda>_. None) data ?flds (Map.empty, []) = Inr (cd0, field_errors data ?flds)"
    and v: "\<And>x. cd0 x = (case map_of ?flds x of
                         None \<Rightarrow> None
                       | Some f \<Rightarrow> (case field_clean f data x of Inl _ \<Rightarrow> None | Inr v \<Rightarrow> Some v))"
    by blast
  from declared_checkbox [OF assms(1)] obtain f lbl where
    d: "map_of SubscribeForm_declared_fields name = Some f" "required f"
      "field_class f = MultipleChoiceField [(''True'', lbl)]" "validators f = []"
    by blast
  have sub: "set SubscribeForm_Meta_boolean_choices \<subseteq> set (map fst
      (map (\<lambda>name. (name, case map_of SubscribeForm_declared_fields name of
                                      None \<Rightarrow> ff name | Some f \<Rightarrow> f)) SubscribeForm_Meta_fields))"
    using boolean_choices_fields by (simp add: comp_def)
  have "map_of (populate_boolean_fields mh
      (map (\<lambda>name. (name, case map_of SubscribeForm_declared_fields name of
                                      None \<Rightarrow> ff name | Some f \<Rightarrow> f)) SubscribeForm_Meta_fields)) name = Some f"
    using populate_other [OF sub checkbox_names(2) [OF assms(1)]] checkbox_names(1) [OF assms(1)] d(1)
    by (simp add: map_of_keys)
  with d checkbox_names(3,4) [OF assms(1)] have f: "map_of ?flds name = Some f"
    by (simp add: SubscribeForm_init_def Let_def map_of_fold_required map_of_update_field)
  from checkbox_unchecked [OF d(2,3,4) assms(2)] obtain es where
    es: "field_clean f data name = Inl es" "es \<noteq> []"
    by blast
  from f have "(name, f) \<in> set ?flds" by (rule map_of_SomeD)
  from field_errors_member [OF this es(1)] have mem: "(Some name, es) \<in> set (field_errors data ?flds)" .
  from v [of name] f es(1) have none: "cd0 name = None" by simp
  have nb: "name \<notin> set SubscribeForm_Meta_boolean_choices"
    by (rule checkbox_names(2) [OF assms(1)])
  have final: "(Some name, es) \<in> set errs \<and> cd name = None"
    if "SubscribeForm_full_clean ff mh me data = Inr (cd, errs)" for cd errs
  proof -
    from that r obtain cd1 where
      c: "SubscribeForm_clean cd0 = Inr cd1"
      and p: "post_clean me (cd1, field_errors data ?flds) = (cd, errs)"
      by (auto simp: SubscribeForm_full_clean_def full_clean_def clean_form_SubscribeForm
          split: sum.splits)
    from c have "cast_boolean_choices SubscribeForm_Meta_boolean_choices cd0 = Inr cd1"
      by (auto simp: SubscribeForm_clean_def Form_clean_def split: sum.splits)
    from cast_other [OF this nb] none have "fst (cd1, field_errors data ?flds) name = None"
      by simp
    from post_clean_None [OF this, of me] p have "cd name = None" by simp
    moreover from post_clean_errors [of me "(cd1, field_errors data ?flds)"] p mem
    have "(Some name, es) \<in> set errs" by auto
    ultimately show ?thesis by simp
  qed
  have invalid: "is_valid (SubscribeForm_full_clean ff mh me data) \<noteq> Inr True"
  proof (cases "SubscribeForm_full_clean ff mh me data")
    case (Inl e)
    then show ?thesis by (simp add: is_valid_def)
  next
    case (Inr st)
    obtain cd errs where st: "st = (cd, errs)" by (cases st)
    from final [of cd errs] Inr st have "errs \<noteq> []" by auto
    with Inr st show ?thesis by (simp add: is_valid_def)
  qed
  have returns: "\<exists>cd errs. SubscribeForm_full_clean ff mh me data = Inr (cd, errs)"
    if a: "\<forall>b \<in> set SubscribeForm_Meta_boolean_choices.
             QueryDict_get data b = Some ''Yes'' \<or> QueryDict_get data b = Some ''No''"
  proof -
    have "\<forall>b \<in> set SubscribeForm_Meta_boolean_choices. cd0 b \<noteq> None"
    proof
      fix b assume b: "b \<in> set SubscribeForm_Meta_boolean_choices"
      from SubscribeForm_boolean_field [OF b, of ff mh] obtain g where
        g: "map_of ?flds b = Some g" "required g"
          "field_class g = ChoiceField [(''Yes'', ''Yes''), (''No'', ''No'')]" "validators g = []"
        by blast
      from a b have "\<exists>w. field_clean g data b = Inr w"
        by (auto simp: boolean_field_clean [OF g(2,3,4)])
      with v [of b] g(1) show "cd0 b \<noteq> None" by auto
    qed
    from cast_succeeds [OF this] obtain cd1 where
      "cast_boolean_choices SubscribeForm_Meta_boolean_choices cd0 = Inr cd1"
      by blast
    then have "SubscribeForm_full_clean ff mh me data
                 = Inr (post_clean me (cd1, field_errors data ?flds))"
      by (simp add: SubscribeForm_full_clean_def full_clean_def r clean_form_SubscribeForm
          SubscribeForm_clean_def Form_clean_def)
    then show ?thesis
      by (cases "post_clean me (cd1, field_errors data ?flds)") auto
  qed
  from d f r mem es(2) none invalid final returns show ?thesis
    by blast
qed

lemma SubscribeForm_mandatory_checkboxes_example:
  "''True'' \<notin> set (QueryDict_getlist (demo_subscription(''add_to_chats'' := None)) ''add_to_chats'')
   \<and> (\<forall>b \<in> set SubscribeForm_Meta_boolean_choices.
         QueryDict_get (demo_subscription(''add_to_chats'' := None)) b = Some ''Yes''
       \<or> QueryDict_get (demo_subscription(''add_to_chats'' := None)) b = Some ''No'')
   \<and> is_valid (SubscribeForm_full_clean demo_formfield demo_help_text (\<lambda>_. [])
        (demo_subscription(''add_to_chats'' := None))) = Inr False"
proof -
  let ?data = "demo_subscription(''add_to_chats'' := None)"
  have h: "''True'' \<notin> set (QueryDict_getlist ?data ''add_to_chats'')"
    by (simp add: QueryDict_getlist_def)
  have b: "\<forall>b \<in> set SubscribeForm_Meta_boolean_choices.
         QueryDict_get ?data b = Some ''Yes'' \<or> QueryDict_get ?data b = Some ''No''"
    by (simp add: SubscribeForm_Meta_boolean_choices_def QueryDict_get_def demo_subscription_def)
  from SubscribeForm_mandatory_checkboxes [of "''add_to_chats''" ?data demo_formfield demo_help_text "\<lambda>_. []"] h b
  obtain cd errs where
    "SubscribeForm_full_clean demo_formfield demo_help_text (\<lambda>_. []) ?data = Inr (cd, errs)"
    and "is_valid (SubscribeForm_full_clean demo_formfield demo_help_text (\<lambda>_. []) ?data) \<noteq> Inr True"
    by blast
  then have "is_valid (SubscribeForm_full_clean demo_formfield demo_help_text (\<lambda>_. []) ?data) = Inr False"
    by (simp add: is_valid_def)
  with h b show ?thesis by blast
qed

lemma demo_unchecked_unanswered:
  "case SubscribeForm_full_clean demo_formfield demo_help_text (\<lambda>_. [])
          (demo_subscription(''add_to_chats'' := None, ''is_student'' := None)) of
     Inl e \<Rightarrow> e = KeyError ''is_student'' | Inr st \<Rightarrow> False"
  by code_simp

text \<open>
  Claim C10. A subscription that leaves \<^verbatim>\<open>add_to_chats\<close> or \<^verbatim>\<open>ensure_subscribe\<close>
  unchecked should be rejected by validation. On the example submission with
  \<^verbatim>\<open>add_to_chats\<close> unchecked and \<^verbatim>\<open>is_student\<close> unanswered, validation does not come
  back with errors: it ends in the uncaught \<^verbatim>\<open>KeyError\<close> of \<^verbatim>\<open>SubscribeForm.clean\<close>.
\<close>

theorem SubscribeForm_unchecked_raises:
  "''True'' \<notin> set (QueryDict_getlist
       (demo_subscription(''add_to_chats'' := None, ''is_student'' := None)) ''add_to_chats'')
   \<and> SubscribeForm_full_clean demo_formfield demo_help_text (\<lambda>_. [])
        (demo_subscription(''add_to_chats'' := None, ''is_student'' := None))
       = Inl (KeyError ''is_student'')"
proof -
  have "''True'' \<notin> set (QueryDict_getlist
       (demo_subscription(''add_to_chats'' := None, ''is_student'' := None)) ''add_to_chats'')"
    by (simp add: QueryDict_getlist_def)
  moreover from demo_unchecked_unanswered
  have "SubscribeForm_full_clean demo_formfield demo_help_text (\<lambda>_. [])
        (demo_subscription(''add_to_chats'' := None, ''is_student'' := None))
       = Inl (KeyError ''is_student'')"
    by (simp split: sum.splits)
  ultimately show ?thesis by simp
qed

section \<open>Validation of the membership request form\<close>

lemma PMRF_full_clean_eq:
  "ProcessMembershipRequestForm_full_clean m data =
     Inr (let st0 = (Map.empty, []);
              st1 = (case field_clean (ProcessMembershipRequestForm_username m) data ''username'' of
                       Inl es \<Rightarrow> add_error (Some ''username'') es st0
                     | Inr v \<Rightarrow>
                         if \<exists>u \<in> set (User_usernames m). v = PyStr u
                         then add_error (Some ''username'') [username_exists_error]
                                ((fst st0)(''username'' \<mapsto> v), snd st0)
                         else ((fst st0)(''username'' \<mapsto> PyNone), snd st0));
              st2 = (case field_clean ProcessMembershipRequestForm_person_id data ''person_id'' of
                       Inl es \<Rightarrow> add_error (Some ''person_id'') es st1
                     | Inr v \<Rightarrow>
                         if \<exists>p \<in> set (Person_person_ids m). v = PyStr p
                         then add_error (Some ''person_id'') [person_id_used_error m]
                                ((fst st1)(''person_id'' \<mapsto> v), snd st1)
                         else ((fst st1)(''person_id'' \<mapsto> PyNone), snd st1))
          in case field_clean (ProcessMembershipRequestForm_instruments m) data ''instruments'' of
               Inl es \<Rightarrow> add_error (Some ''instruments'') es st2
             | Inr v \<Rightarrow> ((fst st2)(''instruments'' \<mapsto> v), snd st2))"
  by (simp add: ProcessMembershipRequestForm_full_clean_def full_clean_def
      ProcessMembershipRequestForm_fields_def ProcessMembershipRequestForm_hooks_def
      clean_username_def clean_person_id_def validate_person_id_unique_def
      clean_form_def Form_clean_def post_clean_def Let_def
      split: sum.split)

lemma CharField_clean:
  assumes "required f" and "field_class f = CharField"
  shows "field_clean f data name =
           (case QueryDict_get data name of
              None \<Rightarrow> Inl [required_error]
            | Some s \<Rightarrow>
                if py_strip s = [] then Inl [required_error]
                else if concat (map (\<lambda>validator. validator (PyStr (py_strip s))) (validators f)) \<noteq> []
                then Inl (concat (map (\<lambda>validator. validator (PyStr (py_strip s))) (validators f)))
                else Inr (PyStr (py_strip s)))"
  using assms
  by (auto simp: field_clean_def to_python_def validate_def run_validators_def Let_def
      split: option.split)

lemma CharField_clean_cases:
  assumes "required f" and "field_class f = CharField"
  shows "(\<exists>es. field_clean f data name = Inl es \<and> es \<noteq> [])
       \<or> (\<exists>s. QueryDict_get data name = Some s \<and> field_clean f data name = Inr (PyStr (py_strip s)))"
  by (auto simp: CharField_clean [OF assms] required_error_def split: option.split)


lemma username_field_props:
  "required (ProcessMembershipRequestForm_username m)"
  "field_class (ProcessMembershipRequestForm_username m) = CharField"
  "required ProcessMembershipRequestForm_person_id"
  "field_class ProcessMembershipRequestForm_person_id = CharField"
  by (simp_all add: ProcessMembershipRequestForm_username_def ProcessMembershipRequestForm_person_id_def)





text \<open>
  Claim C8. When the form validates, a non-empty unused user name and person id were
  submitted, yet the cleaned values stored under \<^verbatim>\<open>username\<close> and \<^verbatim>\<open>person_id\<close> are
  \<^verbatim>\<open>None\<close>: the result of \<^verbatim>\<open>clean_username\<close> and \<^verbatim>\<open>clean_person_id\<close>, which return
  nothing, replaces the value of the field.
\<close>

theorem ProcessMembershipRequestForm_cleaned_None:
  assumes "ProcessMembershipRequestForm_full_clean m data = Inr (cd, [])"
  shows "cd ''username'' = Some PyNone \<and> cd ''person_id'' = Some PyNone
       \<and> (\<exists>u. QueryDict_get data ''username'' = Some u \<and> py_strip u \<noteq> []
              \<and> py_strip u \<notin> set (User_usernames m))
       \<and> (\<exists>p. QueryDict_get data ''person_id'' = Some p \<and> py_strip p \<noteq> []
              \<and> py_strip p \<notin> set (Person_person_ids m))"
proof -
  from CharField_clean_cases [OF username_field_props(1,2), of m data "''username''"]
  consider es where "field_clean (ProcessMembershipRequestForm_username m) data ''username'' = Inl es"
    | u where "QueryDict_get data ''username'' = Some u"
        "field_clean (ProcessMembershipRequestForm_username m) data ''username'' = Inr (PyStr (py_strip u))"
    by auto
  then show ?thesis
  proof cases
    case 1
    with assms show ?thesis
      by (simp add: PMRF_full_clean_eq add_error_def Let_def split: sum.splits if_splits)
  next
    case u: 2
    from CharField_clean_cases [OF username_field_props(3,4), of data "''person_id''"]
    consider es where "field_clean ProcessMembershipRequestForm_person_id data ''person_id'' = Inl es"
      | p where "QueryDict_get data ''person_id'' = Some p"
          "field_clean ProcessMembershipRequestForm_person_id data ''person_id'' = Inr (PyStr (py_strip p))"
      by auto
    then show ?thesis
    proof cases
      case 1
      with assms u show ?thesis
        by (simp add: PMRF_full_clean_eq add_error_def Let_def split: sum.splits if_splits)
    next
      case p: 2
      from u have "py_strip u \<noteq> []"
        by (auto simp: CharField_clean [OF username_field_props(1,2)] split: if_splits)
      moreover from p have "py_strip p \<noteq> []"
        by (auto simp: CharField_clean [OF username_field_props(3,4)] split: if_splits)
      moreover from assms u p have "py_strip u \<notin> set (User_usernames m)"
        "py_strip p \<notin> set (Person_person_ids m)"
        "cd ''username'' = Some PyNone" "cd ''person_id'' = Some PyNone"
        by (auto simp: PMRF_full_clean_eq add_error_def Let_def split: sum.splits if_splits)
      ultimately show ?thesis using u(1) p(1) by simp
    qed
  qed
qed

lemma demo_request_valid:
  "case ProcessMembershipRequestForm_full_clean demo_models demo_request of
     Inl e \<Rightarrow> False | Inr st \<Rightarrow> snd st = []"
  by code_simp

theorem ProcessMembershipRequestForm_cleaned_None_witness:
  "\<exists>cd. ProcessMembershipRequestForm_full_clean demo_models demo_request = Inr (cd, [])
      \<and> QueryDict_get demo_request ''username'' = Some '' carol ''
      \<and> cd ''username'' = Some PyNone \<and> cd ''person_id'' = Some PyNone"
proof -
  from demo_request_valid obtain cd where
    v: "ProcessMembershipRequestForm_full_clean demo_models demo_request = Inr (cd, [])"
    by (cases "ProcessMembershipRequestForm_full_clean demo_models demo_request") auto
  have "QueryDict_get demo_request ''username'' = Some '' carol ''"
    by (simp add: QueryDict_get_def demo_request_def)
  with ProcessMembershipRequestForm_cleaned_None [OF v] v show ?thesis
    by blast
qed




end
